theory Spec2Isabelle
  imports Main "HOL-Library.Word"
begin

section \<open>JavaScript values\<close>

text \<open>
  A JavaScript string is a sequence of 16-bit code units. Literals of the source are all
  ASCII, so \<open>ascii\<close> turns an Isabelle literal into the string the source denotes.
\<close>

type_synonym js_string = "16 word list"

definition ascii :: \<open>string \<Rightarrow> js_string\<close> where
  \<open>ascii s = map (\<lambda>c. word_of_nat (of_char c)) s\<close>

definition nl :: \<open>js_string\<close> where
  \<open>nl = [0x0A]\<close>

text \<open>
  \<open>String.prototype.trim\<close> removes leading and trailing WhiteSpace and LineTerminator
  code units (ECMA-262): TAB, LF, VT, FF, CR, SP, NBSP, the other space separators and
  the byte order mark.
\<close>

definition isWhiteSpace :: \<open>16 word \<Rightarrow> bool\<close> where
  \<open>isWhiteSpace c =
     (c \<in> set [0x0009, 0x000A, 0x000B, 0x000C, 0x000D, 0x0020, 0x00A0, 0x1680,
                0x2028, 0x2029, 0x202F, 0x205F, 0x3000, 0xFEFF]
      \<or> (0x2000 \<le> c \<and> c \<le> 0x200A))\<close>

definition trim :: \<open>js_string \<Rightarrow> js_string\<close> where
  \<open>trim s = rev (dropWhile isWhiteSpace (rev (dropWhile isWhiteSpace s)))\<close>

text \<open>\<open>s.split(sep)\<close> for a separator of one code unit, and \<open>xs[i]\<close>, which is
  \<open>undefined\<close> (here \<open>None\<close>) out of range.\<close>

fun split :: \<open>16 word \<Rightarrow> js_string \<Rightarrow> js_string list\<close> where
  \<open>split sep [] = [] # []\<close>
| \<open>split sep (c # cs) =
     (if c = sep then [] # split sep cs
      else (case split sep cs of [] \<Rightarrow> [c] # [] | x # xs \<Rightarrow> (c # x) # xs))\<close>

definition at_index :: \<open>'a list \<Rightarrow> nat \<Rightarrow> 'a option\<close> where
  \<open>at_index xs i = (if i < length xs then Some (xs ! i) else None)\<close>

text \<open>\<open>s.includes(sub)\<close>: \<open>sub\<close> occurs in \<open>s\<close> as a contiguous run.\<close>

fun startsWith :: \<open>js_string \<Rightarrow> js_string \<Rightarrow> bool\<close> where
  \<open>startsWith s [] = True\<close>
| \<open>startsWith [] (c # cs) = False\<close>
| \<open>startsWith (x # xs) (c # cs) = (x = c \<and> startsWith xs cs)\<close>

fun includes_str :: \<open>js_string \<Rightarrow> js_string \<Rightarrow> bool\<close> where
  \<open>includes_str [] sub = (sub = [])\<close>
| \<open>includes_str (x # xs) sub = (startsWith (x # xs) sub \<or> includes_str xs sub)\<close>

text \<open>Truthiness of an optional string: \<open>undefined\<close> and the empty string are falsy.\<close>

definition truthy :: \<open>js_string option \<Rightarrow> bool\<close> where
  \<open>truthy v = (case v of None \<Rightarrow> False | Some s \<Rightarrow> s \<noteq> [])\<close>

text \<open>A value in a template literal: \<open>undefined\<close> prints as the word itself.\<close>

definition ToString :: \<open>js_string option \<Rightarrow> js_string\<close> where
  \<open>ToString v = (case v of None \<Rightarrow> ascii ''undefined'' | Some s \<Rightarrow> s)\<close>

text \<open>
  What \<open>JSON.parse\<close> returns. A number is the bit pattern of its IEEE 754 double; an
  object is its property list.
\<close>

datatype json =
    JNull
  | JBoolean bool
  | JNumber \<open>64 word\<close>
  | JString js_string
  | JArray \<open>json list\<close>
  | JObject \<open>(js_string \<times> json) list\<close>

text \<open>\<open>ToBoolean\<close>: \<open>null\<close>, \<open>false\<close>, both zeros, NaN and the empty string are falsy.\<close>

definition isNaN :: \<open>64 word \<Rightarrow> bool\<close> where
  \<open>isNaN w = (0x7FF0000000000000 < and w 0x7FFFFFFFFFFFFFFF)\<close>

fun ToBoolean :: \<open>json \<Rightarrow> bool\<close> where
  \<open>ToBoolean JNull = False\<close>
| \<open>ToBoolean (JBoolean b) = b\<close>
| \<open>ToBoolean (JNumber w) = (and w 0x7FFFFFFFFFFFFFFF \<noteq> 0 \<and> \<not> isNaN w)\<close>
| \<open>ToBoolean (JString s) = (s \<noteq> [])\<close>
| \<open>ToBoolean (JArray xs) = True\<close>
| \<open>ToBoolean (JObject kvs) = True\<close>

text \<open>
  What the source can throw or reject with: an \<open>Error\<close> with its message (also the
  service client's own error class), the \<open>SyntaxError\<close> of \<open>JSON.parse\<close>, the
  \<open>TypeError\<close> of a property read on \<open>null\<close>, and the event a failed
  \<open>FileReader\<close> rejects with, which is no \<open>Error\<close>.
\<close>

datatype thrown =
    Error js_string
  | SyntaxError js_string
  | TypeError js_string
  | ProgressEvent

text \<open>
  \<open>v.suggestions\<close>: a \<open>TypeError\<close> on \<open>null\<close>, the property of an object,
  \<open>undefined\<close> on anything else (no prototype has a property of that name).
\<close>

definition null_read_message :: \<open>js_string\<close> where
  \<open>null_read_message = ascii ''Cannot read properties of null (reading 'suggestions')''\<close>

fun get_suggestions :: \<open>json \<Rightarrow> thrown + json option\<close> where
  \<open>get_suggestions JNull = Inl (TypeError null_read_message)\<close>
| \<open>get_suggestions (JObject kvs) = Inr (map_of kvs (ascii ''suggestions''))\<close>
| \<open>get_suggestions v = Inr None\<close>

section \<open>The service: \<open>services/geminiService.ts\<close>\<close>

record File =
  file_name :: js_string
  file_type :: js_string
  file_bytes :: \<open>8 word list\<close>

record blob =
  data :: \<open>js_string option\<close>
  mimeType :: \<open>js_string option\<close>

record part =
  part_text :: \<open>js_string option\<close>
  inlineData :: \<open>blob option\<close>

record content =
  parts :: \<open>part list option\<close>

record candidate =
  finishReason :: \<open>js_string option\<close>
  content :: \<open>content option\<close>

record feedback =
  blockReason :: \<open>js_string option\<close>

record GenerateContentResponse =
  promptFeedback :: \<open>feedback option\<close>
  candidates :: \<open>candidate list option\<close>
  response_text :: \<open>js_string option\<close>

datatype modality = IMAGE | TEXT

datatype schema =
    STRING
  | ARRAY schema
  | OBJECT \<open>(js_string \<times> schema) list\<close> \<open>js_string list\<close>

datatype config =
    JsonConfig js_string schema
  | ModalitiesConfig \<open>modality list\<close>

record request =
  model :: js_string
  contents :: \<open>part list\<close>
  config :: config

text \<open>
  What the function does not decide: the credential of the environment, what the
  \<open>FileReader\<close> gives for a file (\<open>None\<close> when \<open>onerror\<close> fires), what the service
  answers to a request (or the error the call rejects with), and \<open>JSON.parse\<close>.
\<close>

record world =
  API_KEY :: \<open>js_string option\<close>
  readAsDataURL :: \<open>File \<Rightarrow> js_string option\<close>
  generateContent :: \<open>request \<Rightarrow> thrown + GenerateContentResponse\<close>
  JSON_parse :: \<open>js_string \<Rightarrow> thrown + json\<close>

text \<open>What a call does that can be observed from outside, in order.\<close>

datatype effect = FileRead File | NetworkCall request

definition fileToBase64 :: \<open>world \<Rightarrow> File \<Rightarrow> thrown + js_string option\<close> where
  \<open>fileToBase64 w f =
     (case readAsDataURL w f of
        None \<Rightarrow> Inl ProgressEvent
      | Some result \<Rightarrow> Inr (at_index (split 0x2C result) 1))\<close>

definition image_part :: \<open>js_string option \<Rightarrow> File \<Rightarrow> part\<close> where
  \<open>image_part base64 f =
     \<lparr>part_text = None, inlineData = Some \<lparr>data = base64, mimeType = Some (file_type f)\<rparr>\<rparr>\<close>

definition text_part :: \<open>js_string \<Rightarrow> part\<close> where
  \<open>text_part t = \<lparr>part_text = Some t, inlineData = None\<rparr>\<close>

definition missing_key :: \<open>thrown\<close> where
  \<open>missing_key = Error (ascii ''API_KEY environment variable not set'')\<close>

subsection \<open>\<open>generatePromptSuggestions\<close>\<close>

definition suggestions_prompt :: \<open>js_string\<close> where
  \<open>suggestions_prompt =
     ascii ''Analyze the following two images. Image 1 contains a character, and Image 2 contains a product. Based on your analysis, generate exactly 4 short, creative, and actionable prompt suggestions for how to combine them. The suggestions should be phrased as commands (e.g., "Make the character wear the [product]"). Return the suggestions as a JSON object with a single key "suggestions" containing an array of strings.''\<close>

definition suggestions_request :: \<open>js_string option \<Rightarrow> js_string option \<Rightarrow> File \<Rightarrow> File \<Rightarrow> request\<close> where
  \<open>suggestions_request characterBase64 productBase64 characterImageFile productImageFile =
     \<lparr>model = ascii ''gemini-2.5-flash'',
      contents = [image_part characterBase64 characterImageFile,
                  image_part productBase64 productImageFile,
                  text_part suggestions_prompt],
      config = JsonConfig (ascii ''application/json'')
                 (OBJECT [(ascii ''suggestions'', ARRAY STRING)] [ascii ''suggestions''])\<rparr>\<close>

text \<open>Lines 48 and 49: \<open>JSON.parse(response.text)\<close>, then \<open>.suggestions || []\<close>.\<close>

definition read_suggestions :: \<open>world \<Rightarrow> GenerateContentResponse \<Rightarrow> thrown + json\<close> where
  \<open>read_suggestions w response =
     (case JSON_parse w (ToString (response_text response)) of
        Inl e \<Rightarrow> Inl e
      | Inr jsonResponse \<Rightarrow>
          (case get_suggestions jsonResponse of
             Inl e \<Rightarrow> Inl e
           | Inr None \<Rightarrow> Inr (JArray [])
           | Inr (Some v) \<Rightarrow> Inr (if ToBoolean v then v else JArray [])))\<close>

definition generatePromptSuggestions ::
  \<open>world \<Rightarrow> File \<Rightarrow> File \<Rightarrow> effect list \<times> (thrown + json)\<close> where
  \<open>generatePromptSuggestions w characterImageFile productImageFile =
     (if \<not> truthy (API_KEY w) then ([], Inl missing_key)
      else case fileToBase64 w characterImageFile of
        Inl e \<Rightarrow> ([FileRead characterImageFile], Inl e)
      | Inr characterBase64 \<Rightarrow>
      (case fileToBase64 w productImageFile of
        Inl e \<Rightarrow> ([FileRead characterImageFile, FileRead productImageFile], Inl e)
      | Inr productBase64 \<Rightarrow>
      (let req = suggestions_request characterBase64 productBase64
                   characterImageFile productImageFile;
           trace = [FileRead characterImageFile, FileRead productImageFile, NetworkCall req]
       in case generateContent w req of
            Inl e \<Rightarrow> (trace, Inl e)
          | Inr response \<Rightarrow> (trace, read_suggestions w response))))\<close>

subsection \<open>\<open>generateFusedImage\<close>\<close>

definition defaultInstruction :: \<open>js_string\<close> where
  \<open>defaultInstruction =
     ascii ''Make the character from the first image interact with or use the product from the second image.''\<close>

definition userInstruction :: \<open>js_string \<Rightarrow> js_string\<close> where
  \<open>userInstruction userPrompt =
     (if userPrompt \<noteq> [] \<and> trim userPrompt \<noteq> [] then userPrompt else defaultInstruction)\<close>

definition fusion_prompt :: \<open>js_string \<Rightarrow> js_string\<close> where
  \<open>fusion_prompt goal =
     ascii ''You are an expert image editor. Your task is to realistically merge a product into a character's image.'' @ nl @
     nl @
     ascii ''**Goal:** '' @ goal @ nl @
     nl @
     ascii ''**Image 1 (Character Image):** This is the main subject and the base for the final image.'' @ nl @
     ascii ''**Image 2 (Product Image):** This contains the product to be integrated with the character.'' @ nl @
     nl @
     ascii ''**Strict Rules:**'' @ nl @
     ascii ''1.  **Combine:** Generate a new image where the character from Image 1 is interacting with or wearing the product from Image 2, as described in the goal.'' @ nl @
     ascii ''2.  **Full Product Integration:** The *entire* product from Image 2 must be realistically integrated. **Do not just copy a logo, graphic, or texture from the product.** For example, if the goal is for the character to wear a t-shirt from Image 2, the final image must show the character wearing the *complete t-shirt* (including its color, shape, and fabric), not just the graphic from the t-shirt pasted onto their original clothing.'' @ nl @
     ascii ''3.  **High-Fidelity Detail Transfer:** All visual details from the product in Image 2 must be transferred. This includes all graphics, logos, text, patterns, and textures. Ensure the final representation is a faithful and complete reproduction of the product's design.'' @ nl @
     ascii ''4.  **Preserve Style:** The final image's artistic style, lighting, and overall aesthetic MUST exactly match the Character Image (Image 1).'' @ nl @
     ascii ''5.  **Preserve Dimensions:** The final image MUST have the same dimensions and aspect ratio as the Character Image (Image 1).'' @ nl @
     ascii ''6.  **No Additions:** Do not add any new elements, characters, or complex backgrounds. Only modify what is necessary to combine the character and product naturally.'' @ nl\<close>

definition fusion_request :: \<open>js_string option \<Rightarrow> js_string option \<Rightarrow> File \<Rightarrow> File \<Rightarrow> js_string \<Rightarrow> request\<close> where
  \<open>fusion_request characterBase64 productBase64 characterImageFile productImageFile userPrompt =
     \<lparr>model = ascii ''gemini-2.5-flash-image'',
      contents = [image_part characterBase64 characterImageFile,
                  image_part productBase64 productImageFile,
                  text_part (fusion_prompt (userInstruction userPrompt))],
      config = ModalitiesConfig [IMAGE, TEXT]\<rparr>\<close>

text \<open>Line 109: the two block conditions, through the optional chains.\<close>

definition first_candidate :: \<open>GenerateContentResponse \<Rightarrow> candidate option\<close> where
  \<open>first_candidate response =
     (case candidates response of None \<Rightarrow> None | Some cs \<Rightarrow> at_index cs 0)\<close>

definition blocked :: \<open>GenerateContentResponse \<Rightarrow> bool\<close> where
  \<open>blocked response =
     ((case promptFeedback response of None \<Rightarrow> False | Some fb \<Rightarrow> truthy (blockReason fb))
      \<or> (case first_candidate response of
            None \<Rightarrow> False
          | Some c \<Rightarrow> finishReason c = Some (ascii ''SAFETY'')))\<close>

text \<open>Line 113: \<open>response.candidates?.[0]?.content?.parts ?? []\<close>.\<close>

definition response_parts :: \<open>GenerateContentResponse \<Rightarrow> part list\<close> where
  \<open>response_parts response =
     (case first_candidate response of
        None \<Rightarrow> []
      | Some c \<Rightarrow>
          (case content c of
             None \<Rightarrow> []
           | Some ct \<Rightarrow> (case parts ct of None \<Rightarrow> [] | Some ps \<Rightarrow> ps)))\<close>

definition data_url :: \<open>blob \<Rightarrow> js_string\<close> where
  \<open>data_url d =
     ascii ''data:'' @ ToString (mimeType d) @ ascii '';base64,'' @ ToString (data d)\<close>

definition safety_violation :: \<open>thrown\<close> where
  \<open>safety_violation = Error (ascii ''SAFETY_POLICY_VIOLATION'')\<close>

definition no_image :: \<open>thrown\<close> where
  \<open>no_image = Error (ascii ''No image was generated. The model may have refused the prompt.'')\<close>

text \<open>Lines 113 to 121: the loop returns at the first part with inline data.\<close>

fun scan_parts :: \<open>part list \<Rightarrow> thrown + js_string\<close> where
  \<open>scan_parts [] = Inl no_image\<close>
| \<open>scan_parts (p # ps) =
     (case inlineData p of Some d \<Rightarrow> Inr (data_url d) | None \<Rightarrow> scan_parts ps)\<close>

definition read_fusion :: \<open>GenerateContentResponse \<Rightarrow> thrown + js_string\<close> where
  \<open>read_fusion response =
     (if blocked response then Inl safety_violation else scan_parts (response_parts response))\<close>

definition generateFusedImage ::
  \<open>world \<Rightarrow> File \<Rightarrow> File \<Rightarrow> js_string \<Rightarrow> effect list \<times> (thrown + js_string)\<close> where
  \<open>generateFusedImage w characterImageFile productImageFile userPrompt =
     (if \<not> truthy (API_KEY w) then ([], Inl missing_key)
      else case fileToBase64 w characterImageFile of
        Inl e \<Rightarrow> ([FileRead characterImageFile], Inl e)
      | Inr characterBase64 \<Rightarrow>
      (case fileToBase64 w productImageFile of
        Inl e \<Rightarrow> ([FileRead characterImageFile, FileRead productImageFile], Inl e)
      | Inr productBase64 \<Rightarrow>
      (let req = fusion_request characterBase64 productBase64
                   characterImageFile productImageFile userPrompt;
           trace = [FileRead characterImageFile, FileRead productImageFile, NetworkCall req]
       in case generateContent w req of
            Inl e \<Rightarrow> (trace, Inl e)
          | Inr response \<Rightarrow> (trace, read_fusion response))))\<close>

section \<open>The application: \<open>App.tsx\<close>\<close>

record ImageFile =
  the_file :: File
  previewUrl :: js_string

record ErrorState =
  title :: js_string
  message :: js_string

text \<open>
  The component's state. The modal flag and the download settings are left out: no
  function modelled here reads or writes them.
\<close>

record app_state =
  characterImage :: \<open>ImageFile option\<close>
  productImage :: \<open>ImageFile option\<close>
  prompt :: js_string
  generatedImage :: \<open>js_string option\<close>
  isLoading :: bool
  error :: \<open>ErrorState option\<close>
  dynamicSuggestions :: json
  isSuggestionsLoading :: bool
  outputAspectRatio :: js_string

text \<open>
  The component with what is in flight: the effects observed so far, the suggestion
  fetches that have not settled (each with the two files its closure holds and the
  outcome it will settle with) and the generation calls that have not settled.
\<close>

record system =
  ui :: app_state
  log :: \<open>effect list\<close>
  fetching :: \<open>(File \<times> File \<times> (thrown + json)) list\<close>
  generating :: \<open>(thrown + js_string) list\<close>

definition initial :: \<open>system\<close> where
  \<open>initial =
     \<lparr>ui = \<lparr>characterImage = None, productImage = None, prompt = [],
             generatedImage = None, isLoading = False, error = None,
             dynamicSuggestions = JArray [], isSuggestionsLoading = False,
             outputAspectRatio = ascii ''original''\<rparr>,
      log = [], fetching = [], generating = []\<rparr>\<close>

text \<open>
  Lines 93 to 110, up to the \<open>await\<close>: the effect that runs after either image has
  changed.
\<close>

definition fetchSuggestions :: \<open>world \<Rightarrow> system \<Rightarrow> system\<close> where
  \<open>fetchSuggestions w s =
     (case characterImage (ui s) of
        None \<Rightarrow> s
      | Some c \<Rightarrow>
          (case productImage (ui s) of
             None \<Rightarrow> s
           | Some p \<Rightarrow>
               (case generatePromptSuggestions w (the_file c) (the_file p) of
                  (trace, outcome) \<Rightarrow>
                    s\<lparr>ui := (ui s)\<lparr>isSuggestionsLoading := True, dynamicSuggestions := JArray []\<rparr>,
                      log := log s @ trace,
                      fetching := fetching s @ [(the_file c, the_file p, outcome)]\<rparr>)))\<close>

text \<open>
  Lines 99 to 106, after the \<open>await\<close>: the fetch at position \<open>i\<close> settles. A value is
  stored, an error is only printed, and the loading flag falls in both cases.
\<close>

definition suggestions_settle :: \<open>system \<Rightarrow> nat \<Rightarrow> system\<close> where
  \<open>suggestions_settle s i =
     (if i < length (fetching s) then
        (case snd (snd (fetching s ! i)) of
           Inr suggestions \<Rightarrow>
             s\<lparr>ui := (ui s)\<lparr>dynamicSuggestions := suggestions, isSuggestionsLoading := False\<rparr>,
               fetching := take i (fetching s) @ drop (Suc i) (fetching s)\<rparr>
         | Inl e \<Rightarrow>
             s\<lparr>ui := (ui s)\<lparr>isSuggestionsLoading := False\<rparr>,
               fetching := take i (fetching s) @ drop (Suc i) (fetching s)\<rparr>)
      else s)\<close>

text \<open>
  Line 126 passes four arguments to a function that declares three parameters.
  JavaScript binds the first three; the fourth, the aspect ratio, is bound to nothing.
\<close>

definition call_generateFusedImage ::
  \<open>world \<Rightarrow> File \<Rightarrow> File \<Rightarrow> js_string \<Rightarrow> js_string \<Rightarrow> effect list \<times> (thrown + js_string)\<close> where
  \<open>call_generateFusedImage w characterImageFile productImageFile userPrompt aspectRatio =
     generateFusedImage w characterImageFile productImageFile userPrompt\<close>

definition missing_images :: \<open>ErrorState\<close> where
  \<open>missing_images =
     \<lparr>title = ascii ''Missing Images'',
      message = ascii ''Please upload both a character and a product image before generating.''\<rparr>\<close>

text \<open>Lines 113 to 126: \<open>handleGenerate\<close> up to the \<open>await\<close>.\<close>

definition handleGenerate :: \<open>world \<Rightarrow> system \<Rightarrow> system\<close> where
  \<open>handleGenerate w s =
     (case characterImage (ui s) of
        None \<Rightarrow> s\<lparr>ui := (ui s)\<lparr>error := Some missing_images\<rparr>\<rparr>
      | Some c \<Rightarrow>
          (case productImage (ui s) of
             None \<Rightarrow> s\<lparr>ui := (ui s)\<lparr>error := Some missing_images\<rparr>\<rparr>
           | Some p \<Rightarrow>
               (case call_generateFusedImage w (the_file c) (the_file p)
                       (prompt (ui s)) (outputAspectRatio (ui s)) of
                  (trace, outcome) \<Rightarrow>
                    s\<lparr>ui := (ui s)\<lparr>error := None, generatedImage := None, isLoading := True\<rparr>,
                      log := log s @ trace,
                      generating := generating s @ [outcome]\<rparr>)))\<close>

text \<open>Lines 128 to 146: the message of what was caught decides the error shown.\<close>

definition errorMessage :: \<open>thrown \<Rightarrow> js_string\<close> where
  \<open>errorMessage e =
     (case e of
        Error m \<Rightarrow> m
      | SyntaxError m \<Rightarrow> m
      | TypeError m \<Rightarrow> m
      | ProgressEvent \<Rightarrow> ascii ''An unknown error occurred.'')\<close>

definition generation_error :: \<open>thrown \<Rightarrow> ErrorState\<close> where
  \<open>generation_error e =
     (if errorMessage e = ascii ''SAFETY_POLICY_VIOLATION'' then
        \<lparr>title = ascii ''Content Policy Violation'',
         message = ascii ''The request was blocked because the prompt or images may have violated safety policies. Please adjust your inputs and try again.''\<rparr>
      else if includes_str (errorMessage e) (ascii ''No image was generated'') then
        \<lparr>title = ascii ''Image Generation Unsuccessful'',
         message = ascii ''The model was unable to generate an image. This can happen if the request is unclear. Please try modifying your instructions or using different images.''\<rparr>
      else
        \<lparr>title = ascii ''Oops! Something Went Wrong'',
         message = ascii ''An unexpected error occurred. Please check your internet connection and try again. If the problem continues, the service might be temporarily unavailable.''\<rparr>)\<close>

text \<open>Lines 127 to 149, after the \<open>await\<close>: the generation call at position \<open>i\<close> settles.\<close>

definition generation_settle :: \<open>system \<Rightarrow> nat \<Rightarrow> system\<close> where
  \<open>generation_settle s i =
     (if i < length (generating s) then
        (case generating s ! i of
           Inr result \<Rightarrow>
             s\<lparr>ui := (ui s)\<lparr>generatedImage := Some result, isLoading := False\<rparr>,
               generating := take i (generating s) @ drop (Suc i) (generating s)\<rparr>
         | Inl e \<Rightarrow>
             s\<lparr>ui := (ui s)\<lparr>error := Some (generation_error e), isLoading := False\<rparr>,
               generating := take i (generating s) @ drop (Suc i) (generating s)\<rparr>)
      else s)\<close>

definition handleReset :: \<open>system \<Rightarrow> system\<close> where
  \<open>handleReset s =
     s\<lparr>ui := (ui s)\<lparr>characterImage := None, productImage := None, generatedImage := None,
                       prompt := [], error := None, isLoading := False,
                       dynamicSuggestions := JArray [],
                       outputAspectRatio := ascii ''original''\<rparr>\<rparr>\<close>

definition isButtonDisabled :: \<open>app_state \<Rightarrow> bool\<close> where
  \<open>isButtonDisabled a = (characterImage a = None \<or> productImage a = None \<or> isLoading a)\<close>

text \<open>
  What can happen to the component, one event at a time: the user's actions and the
  settling of a call in flight. An upload stores a fresh \<open>ImageFile\<close>, so the effect
  runs after each; after a reset it runs and finds no image.
\<close>

datatype event =
    UploadCharacter ImageFile
  | UploadProduct ImageFile
  | SetPrompt js_string
  | SetOutputAspectRatio js_string
  | ClickGenerate
  | ClickReset
  | SuggestionsSettle nat
  | GenerationSettle nat

fun step :: \<open>world \<Rightarrow> system \<Rightarrow> event \<Rightarrow> system\<close> where
  \<open>step w s (UploadCharacter img) =
     fetchSuggestions w (s\<lparr>ui := (ui s)\<lparr>characterImage := Some img\<rparr>\<rparr>)\<close>
| \<open>step w s (UploadProduct img) =
     fetchSuggestions w (s\<lparr>ui := (ui s)\<lparr>productImage := Some img\<rparr>\<rparr>)\<close>
| \<open>step w s (SetPrompt t) = s\<lparr>ui := (ui s)\<lparr>prompt := t\<rparr>\<rparr>\<close>
| \<open>step w s (SetOutputAspectRatio r) = s\<lparr>ui := (ui s)\<lparr>outputAspectRatio := r\<rparr>\<rparr>\<close>
| \<open>step w s ClickGenerate = (if isButtonDisabled (ui s) then s else handleGenerate w s)\<close>
| \<open>step w s ClickReset = handleReset s\<close>
| \<open>step w s (SuggestionsSettle i) = suggestions_settle s i\<close>
| \<open>step w s (GenerationSettle i) = generation_settle s i\<close>

definition run :: \<open>world \<Rightarrow> system \<Rightarrow> event list \<Rightarrow> system\<close> where
  \<open>run w s evs = foldl (step w) s evs\<close>

section \<open>Concrete inputs\<close>

text \<open>
  Three small files with the data URLs a \<open>FileReader\<close> gives for them, a world whose
  service is a parameter, and the responses the examples below are run on.
\<close>

definition alice :: \<open>File\<close> where
  \<open>alice = \<lparr>file_name = ascii ''alice.png'', file_type = ascii ''image/png'', file_bytes = [0x41]\<rparr>\<close>

definition bob :: \<open>File\<close> where
  \<open>bob = \<lparr>file_name = ascii ''bob.png'', file_type = ascii ''image/png'', file_bytes = [0x42]\<rparr>\<close>

definition hat :: \<open>File\<close> where
  \<open>hat = \<lparr>file_name = ascii ''hat.jpg'', file_type = ascii ''image/jpeg'', file_bytes = [0x43]\<rparr>\<close>

definition example_reader :: \<open>File \<Rightarrow> js_string option\<close> where
  \<open>example_reader f =
     (if file_bytes f = [0x41] then Some (ascii ''data:image/png;base64,QQ=='')
      else if file_bytes f = [0x42] then Some (ascii ''data:image/png;base64,Qg=='')
      else if file_bytes f = [0x43] then Some (ascii ''data:image/jpeg;base64,Qw=='')
      else None)\<close>

definition body_alice :: \<open>js_string\<close> where
  \<open>body_alice = ascii ''{"suggestions":["Put the hat on Alice"]}''\<close>

definition body_bob :: \<open>js_string\<close> where
  \<open>body_bob = ascii ''{"suggestions":["Put the hat on Bob"]}''\<close>

definition body_refusal :: \<open>js_string\<close> where
  \<open>body_refusal = ascii ''I cannot help with that.''\<close>

text \<open>\<open>JSON.parse\<close> on the bodies used here; the refusal, like any other text, is no JSON.\<close>

definition example_parse :: \<open>js_string \<Rightarrow> thrown + json\<close> where
  \<open>example_parse t =
     (if t = body_alice then
        Inr (JObject [(ascii ''suggestions'', JArray [JString (ascii ''Put the hat on Alice'')])])
      else if t = body_bob then
        Inr (JObject [(ascii ''suggestions'', JArray [JString (ascii ''Put the hat on Bob'')])])
      else if t = ascii ''{}'' then Inr (JObject [])
      else if t = ascii ''null'' then Inr JNull
      else if t = ascii ''[]'' then Inr (JArray [])
      else Inl (SyntaxError (ascii ''Unexpected token'')))\<close>

definition example_world :: \<open>(request \<Rightarrow> thrown + GenerateContentResponse) \<Rightarrow> world\<close> where
  \<open>example_world service =
     \<lparr>API_KEY = Some (ascii ''secret''), readAsDataURL = example_reader,
      generateContent = service, JSON_parse = example_parse\<rparr>\<close>

definition answering :: \<open>GenerateContentResponse \<Rightarrow> world\<close> where
  \<open>answering r = example_world (\<lambda>req. Inr r)\<close>

definition no_credential :: \<open>GenerateContentResponse \<Rightarrow> world\<close> where
  \<open>no_credential r = (answering r)\<lparr>API_KEY := None\<rparr>\<close>

definition response_of :: \<open>js_string \<Rightarrow> part list \<Rightarrow> GenerateContentResponse\<close> where
  \<open>response_of reason ps =
     \<lparr>promptFeedback = None,
      candidates = Some [\<lparr>finishReason = Some reason, content = Some \<lparr>parts = Some ps\<rparr>\<rparr>],
      response_text = None\<rparr>\<close>

definition text_response :: \<open>js_string \<Rightarrow> GenerateContentResponse\<close> where
  \<open>text_response t = (response_of (ascii ''STOP'') [text_part t])\<lparr>response_text := Some t\<rparr>\<close>

definition png_part :: \<open>part\<close> where
  \<open>png_part =
     \<lparr>part_text = None,
      inlineData = Some \<lparr>data = Some (ascii ''iVBORw0KGgo=''), mimeType = Some (ascii ''image/png'')\<rparr>\<rparr>\<close>

definition jpeg_part :: \<open>part\<close> where
  \<open>jpeg_part =
     \<lparr>part_text = None,
      inlineData = Some \<lparr>data = Some (ascii ''/9j/4AAQ''), mimeType = Some (ascii ''image/jpeg'')\<rparr>\<rparr>\<close>

definition two_images :: \<open>GenerateContentResponse\<close> where
  \<open>two_images =
     response_of (ascii ''STOP'')
       [text_part (ascii ''Here is the image.''), png_part, jpeg_part, text_part (ascii ''Done.'')]\<close>

definition text_only :: \<open>GenerateContentResponse\<close> where
  \<open>text_only = response_of (ascii ''STOP'') [text_part (ascii ''I cannot draw that.'')]\<close>

definition blocked_with_image :: \<open>GenerateContentResponse\<close> where
  \<open>blocked_with_image =
     (response_of (ascii ''STOP'') [png_part])
       \<lparr>promptFeedback := Some \<lparr>blockReason = Some (ascii ''OTHER'')\<rparr>\<rparr>\<close>

definition safety_with_image :: \<open>GenerateContentResponse\<close> where
  \<open>safety_with_image = response_of (ascii ''SAFETY'') [png_part]\<close>

definition no_candidates :: \<open>GenerateContentResponse\<close> where
  \<open>no_candidates = \<lparr>promptFeedback = None, candidates = None, response_text = None\<rparr>\<close>

definition empty_candidates :: \<open>GenerateContentResponse\<close> where
  \<open>empty_candidates = \<lparr>promptFeedback = None, candidates = Some [], response_text = None\<rparr>\<close>

definition no_content :: \<open>GenerateContentResponse\<close> where
  \<open>no_content =
     \<lparr>promptFeedback = None,
      candidates = Some [\<lparr>finishReason = Some (ascii ''STOP''), content = None\<rparr>],
      response_text = None\<rparr>\<close>

definition no_parts :: \<open>GenerateContentResponse\<close> where
  \<open>no_parts =
     \<lparr>promptFeedback = None,
      candidates = Some [\<lparr>finishReason = Some (ascii ''STOP''), content = Some \<lparr>parts = None\<rparr>\<rparr>],
      response_text = None\<rparr>\<close>


definition image_of :: \<open>File \<Rightarrow> ImageFile\<close> where
  \<open>image_of f = \<lparr>the_file = f, previewUrl = ascii ''blob:'' @ file_name f\<rparr>\<close>

definition ready :: \<open>js_string \<Rightarrow> js_string \<Rightarrow> system\<close> where
  \<open>ready t ratio =
     initial\<lparr>ui := (ui initial)\<lparr>characterImage := Some (image_of alice),
                                   productImage := Some (image_of hat),
                                   prompt := t, outputAspectRatio := ratio\<rparr>\<rparr>\<close>

definition refusing :: \<open>world\<close> where
  \<open>refusing = answering (text_response body_refusal)\<close>

definition answering_empty :: \<open>world\<close> where
  \<open>answering_empty = answering (text_response (ascii ''{}''))\<close>

definition answering_null :: \<open>world\<close> where
  \<open>answering_null = answering (text_response (ascii ''null''))\<close>

definition answering_array :: \<open>world\<close> where
  \<open>answering_array = answering (text_response (ascii ''[]''))\<close>

text \<open>A response with a second candidate, and a suggestion service that answers with
  JSON for Alice's picture only.\<close>

definition two_candidates :: \<open>GenerateContentResponse\<close> where
  \<open>two_candidates =
     \<lparr>promptFeedback = Some \<lparr>blockReason = None\<rparr>,
      candidates =
        Some [\<lparr>finishReason = Some (ascii ''STOP''),
               content = Some \<lparr>parts = Some [text_part (ascii ''Here is the image.''), png_part,
                                                jpeg_part, text_part (ascii ''Done.'')]\<rparr>\<rparr>,
              \<lparr>finishReason = Some (ascii ''STOP''),
               content = Some \<lparr>parts = Some [jpeg_part]\<rparr>\<rparr>],
      response_text = None\<rparr>\<close>

definition half_suggesting :: \<open>request \<Rightarrow> thrown + GenerateContentResponse\<close> where
  \<open>half_suggesting req =
     (case contents req of
        [] \<Rightarrow> Inl (Error (ascii ''empty request''))
      | x # xs \<Rightarrow>
          (if inlineData x = Some \<lparr>data = Some (ascii ''QQ==''), mimeType = Some (ascii ''image/png'')\<rparr>
           then Inr (text_response body_alice)
           else Inr (text_response body_refusal)))\<close>

text \<open>
  Alice's picture is replaced by Bob's while the fetch for Alice is in flight. In
  \<open>race\<close> the fetch for Bob then settles first and the one for Alice last; in
  \<open>in_order\<close> the older fetch settles first.
\<close>

definition overtaken :: \<open>event list\<close> where
  \<open>overtaken =
     [UploadCharacter (image_of alice), UploadProduct (image_of hat),
      UploadCharacter (image_of bob)]\<close>




section \<open>Facts about the service\<close>

lemma trim_Nil: "trim [] = []"
  by (simp add: trim_def)

text \<open>Once the credential is there, both files are read and the service answers, the
  result is what the response is read as.\<close>

lemma generateFusedImage_answered:
  assumes "truthy (API_KEY w)"
    and "fileToBase64 w c = Inr cb"
    and "fileToBase64 w p = Inr pb"
    and "generateContent w (fusion_request cb pb c p u) = Inr r"
  shows "generateFusedImage w c p u =
           ([FileRead c, FileRead p, NetworkCall (fusion_request cb pb c p u)], read_fusion r)"
  using assms by (simp add: generateFusedImage_def)

lemma generateFusedImage_trace:
  assumes "truthy (API_KEY w)"
    and "fileToBase64 w c = Inr cb"
    and "fileToBase64 w p = Inr pb"
  shows "fst (generateFusedImage w c p u) =
           [FileRead c, FileRead p, NetworkCall (fusion_request cb pb c p u)]"
  using assms by (simp add: generateFusedImage_def Let_def split: sum.splits)

lemma generatePromptSuggestions_answered:
  assumes "truthy (API_KEY w)"
    and "fileToBase64 w c = Inr cb"
    and "fileToBase64 w p = Inr pb"
    and "generateContent w (suggestions_request cb pb c p) = Inr r"
  shows "generatePromptSuggestions w c p =
           ([FileRead c, FileRead p, NetworkCall (suggestions_request cb pb c p)],
            read_suggestions w r)"
  using assms by (simp add: generatePromptSuggestions_def)

lemma scan_parts_first:
  "\<forall>q\<in>set pre. inlineData q = None \<Longrightarrow> inlineData x = Some d \<Longrightarrow>
     scan_parts (pre @ x # post) = Inr (data_url d)"
  by (induction pre) simp_all

lemma scan_parts_none:
  "\<forall>q\<in>set ps. inlineData q = None \<Longrightarrow> scan_parts ps = Inl no_image"
  by (induction ps) simp_all

lemma blocked_by_reason:
  "promptFeedback r = Some fb \<Longrightarrow> blockReason fb = Some b \<Longrightarrow> b \<noteq> [] \<Longrightarrow> blocked r"
  by (simp add: blocked_def truthy_def)

lemma blocked_by_finish:
  "candidates r = Some (k # ks) \<Longrightarrow> finishReason k = Some (ascii ''SAFETY'') \<Longrightarrow> blocked r"
  by (simp add: blocked_def first_candidate_def at_index_def)

lemma response_parts_missing:
  assumes "candidates r = None \<or> candidates r = Some []
         \<or> (\<exists>k ks. candidates r = Some (k # ks)
               \<and> (content k = None \<or> (\<exists>ct. content k = Some ct \<and> parts ct = None)))"
  shows "response_parts r = []"
  using assms by (auto simp: response_parts_def first_candidate_def at_index_def)










lemma run_append: "run w s (evs @ rest) = run w (run w s evs) rest"
  by (simp add: run_def)

section \<open>Facts about the concrete inputs\<close>

lemma example_key: "truthy (API_KEY (example_world sv))"
  by (simp add: example_world_def truthy_def ascii_def)

lemma example_service: "generateContent (example_world sv) = sv"
  by (simp add: example_world_def)

lemma read_alice: "fileToBase64 (example_world sv) alice = Inr (Some (ascii ''QQ==''))"
  by (simp add: fileToBase64_def example_world_def example_reader_def alice_def at_index_def
      ascii_def)

lemma read_bob: "fileToBase64 (example_world sv) bob = Inr (Some (ascii ''Qg==''))"
  by (simp add: fileToBase64_def example_world_def example_reader_def bob_def at_index_def
      ascii_def)

lemma read_hat: "fileToBase64 (example_world sv) hat = Inr (Some (ascii ''Qw==''))"
  by (simp add: fileToBase64_def example_world_def example_reader_def hat_def at_index_def
      ascii_def)

lemma answering_key: "truthy (API_KEY (answering r))"
  by (simp add: answering_def example_key)

lemma answering_alice: "fileToBase64 (answering r) alice = Inr (Some (ascii ''QQ==''))"
  by (simp add: answering_def read_alice)

lemma answering_hat: "fileToBase64 (answering r) hat = Inr (Some (ascii ''Qw==''))"
  by (simp add: answering_def read_hat)

lemma answering_service: "generateContent (answering r) req = Inr r"
  by (simp add: answering_def example_service)

lemma stop_not_safety: "ascii ''STOP'' \<noteq> ascii ''SAFETY''"
  by (simp add: ascii_def)

lemma not_blocked_response_of:
  "reason \<noteq> ascii ''SAFETY'' \<Longrightarrow> \<not> blocked (response_of reason ps)"
  by (simp add: blocked_def response_of_def first_candidate_def at_index_def)

lemma response_parts_response_of: "response_parts (response_of reason ps) = ps"
  by (simp add: response_parts_def response_of_def first_candidate_def at_index_def)

lemma ready_images:
  "characterImage (ui (ready t ratio)) = Some (image_of alice)"
  "productImage (ui (ready t ratio)) = Some (image_of hat)"
  "fetching (ready t ratio) = []"
  "the_file (image_of f) = f"
  by (simp_all add: ready_def initial_def image_of_def)




lemma refusal_not_json:
  "example_parse body_refusal = Inl (SyntaxError (ascii ''Unexpected token''))"
  by (simp add: example_parse_def body_refusal_def body_alice_def body_bob_def ascii_def)

lemma suggest_alice_half:
  "generatePromptSuggestions (example_world half_suggesting) alice hat =
     ([FileRead alice, FileRead hat,
       NetworkCall (suggestions_request (Some (ascii ''QQ=='')) (Some (ascii ''Qw=='')) alice hat)],
      Inr (JArray [JString (ascii ''Put the hat on Alice'')]))"
proof -
  have "generateContent (example_world half_suggesting)
          (suggestions_request (Some (ascii ''QQ=='')) (Some (ascii ''Qw=='')) alice hat)
        = Inr (text_response body_alice)"
    by (simp add: example_service half_suggesting_def suggestions_request_def image_part_def
        alice_def)
  from generatePromptSuggestions_answered [OF example_key read_alice read_hat this]
  show ?thesis
    by (simp add: read_suggestions_def text_response_def ToString_def example_world_def
        example_parse_def)
qed

lemma suggest_bob_half:
  "generatePromptSuggestions (example_world half_suggesting) bob hat =
     ([FileRead bob, FileRead hat,
       NetworkCall (suggestions_request (Some (ascii ''Qg=='')) (Some (ascii ''Qw=='')) bob hat)],
      Inl (SyntaxError (ascii ''Unexpected token'')))"
proof -
  have "generateContent (example_world half_suggesting)
          (suggestions_request (Some (ascii ''Qg=='')) (Some (ascii ''Qw=='')) bob hat)
        = Inr (text_response body_refusal)"
    by (simp add: example_service half_suggesting_def suggestions_request_def image_part_def
        bob_def ascii_def)
  from generatePromptSuggestions_answered [OF example_key read_bob read_hat this]
  show ?thesis
    by (simp add: read_suggestions_def text_response_def ToString_def example_world_def
        refusal_not_json)
qed

lemma run_overtaken_half:
  "run (example_world half_suggesting) initial overtaken =
     initial
       \<lparr>ui := (ui initial)\<lparr>characterImage := Some (image_of bob),
                              productImage := Some (image_of hat),
                              isSuggestionsLoading := True\<rparr>,
        log := [FileRead alice, FileRead hat,
                NetworkCall (suggestions_request (Some (ascii ''QQ=='')) (Some (ascii ''Qw==''))
                               alice hat),
                FileRead bob, FileRead hat,
                NetworkCall (suggestions_request (Some (ascii ''Qg=='')) (Some (ascii ''Qw==''))
                               bob hat)],
        fetching := [(alice, hat, Inr (JArray [JString (ascii ''Put the hat on Alice'')])),
                     (bob, hat, Inl (SyntaxError (ascii ''Unexpected token'')))]\<rparr>"
  by (simp add: run_def overtaken_def initial_def fetchSuggestions_def image_of_def
      suggest_alice_half suggest_bob_half)


lemma fuse_two_images:
  "generateFusedImage (answering two_images) alice hat u =
     ([FileRead alice, FileRead hat,
       NetworkCall (fusion_request (Some (ascii ''QQ=='')) (Some (ascii ''Qw=='')) alice hat u)],
      Inr (ascii ''data:image/png;base64,iVBORw0KGgo=''))"
proof -
  have "read_fusion two_images = Inr (ascii ''data:image/png;base64,iVBORw0KGgo='')"
    by (simp add: read_fusion_def two_images_def not_blocked_response_of stop_not_safety
        response_parts_response_of text_part_def png_part_def data_url_def ToString_def ascii_def)
  with generateFusedImage_answered [OF answering_key answering_alice answering_hat answering_service]
  show ?thesis
    by simp
qed

lemma handleGenerate_ready:
  "handleGenerate (answering two_images) (ready t ratio) =
     (ready t ratio)
       \<lparr>ui := (ui (ready t ratio))\<lparr>error := None, generatedImage := None, isLoading := True\<rparr>,
        log := [FileRead alice, FileRead hat,
                NetworkCall (fusion_request (Some (ascii ''QQ=='')) (Some (ascii ''Qw=='')) alice hat t)],
        generating := [Inr (ascii ''data:image/png;base64,iVBORw0KGgo='')]\<rparr>"
  by (simp add: handleGenerate_def ready_def initial_def image_of_def call_generateFusedImage_def
      fuse_two_images)

section \<open>The claims\<close>

text \<open>
  C1, on the code at the input of the claim's scenario: with the instruction
  "Make the character wear the item" and the aspect ratio "1:1" selected,
  \<open>handleGenerate\<close> reads the two files and sends one request, whose text is the prompt
  built from the user's words alone. It is the request sent when "original" is selected,
  and the text "1:1" occurs nowhere in its prompt: no clause asking for that aspect
  ratio is appended.
\<close>

theorem aspect_ratio_dropped:
  "log (handleGenerate (answering two_images)
          (ready (ascii ''Make the character wear the item'') (ascii ''1:1'')))
     = [FileRead alice, FileRead hat,
        NetworkCall (fusion_request (Some (ascii ''QQ=='')) (Some (ascii ''Qw=='')) alice hat
                       (ascii ''Make the character wear the item''))]
   \<and> log (handleGenerate (answering two_images)
            (ready (ascii ''Make the character wear the item'') (ascii ''1:1'')))
     = log (handleGenerate (answering two_images)
              (ready (ascii ''Make the character wear the item'') (ascii ''original'')))
   \<and> contents (fusion_request (Some (ascii ''QQ=='')) (Some (ascii ''Qw=='')) alice hat
                  (ascii ''Make the character wear the item''))
     = [image_part (Some (ascii ''QQ=='')) alice, image_part (Some (ascii ''Qw=='')) hat,
        text_part (fusion_prompt (ascii ''Make the character wear the item''))]
   \<and> \<not> includes_str (fusion_prompt (ascii ''Make the character wear the item'')) (ascii ''1:1'')"
proof -
  have t: "trim (ascii ''Make the character wear the item'') \<noteq> []"
    by (simp add: trim_def ascii_def isWhiteSpace_def)
  have u: "userInstruction (ascii ''Make the character wear the item'')
             = ascii ''Make the character wear the item''"
    using t by (auto simp: userInstruction_def trim_Nil)
  have i: "\<not> includes_str (fusion_prompt (ascii ''Make the character wear the item'')) (ascii ''1:1'')"
    by (simp add: fusion_prompt_def ascii_def nl_def)
  show ?thesis
    by (simp add: handleGenerate_ready fusion_request_def u i)
qed

text \<open>
  C2 as stated fails: the service answers (no transport failure) with a body that is
  no JSON, and \<open>generatePromptSuggestions\<close> ends with the \<open>SyntaxError\<close> of
  \<open>JSON.parse\<close>, not with the empty list.
\<close>

theorem malformed_body_raises:
  "generateContent refusing
       (suggestions_request (Some (ascii ''QQ=='')) (Some (ascii ''Qw=='')) alice hat)
     = Inr (text_response body_refusal)
   \<and> snd (generatePromptSuggestions refusing alice hat)
     = Inl (SyntaxError (ascii ''Unexpected token''))"
proof -
  have p: "example_parse body_refusal = Inl (SyntaxError (ascii ''Unexpected token''))"
    by (simp add: example_parse_def body_refusal_def body_alice_def body_bob_def ascii_def)
  have "read_suggestions refusing (text_response body_refusal)
          = Inl (SyntaxError (ascii ''Unexpected token''))"
    by (simp add: read_suggestions_def refusing_def answering_def example_world_def
        text_response_def ToString_def p)
  with generatePromptSuggestions_answered
    [OF answering_key answering_alice answering_hat answering_service,
      of "text_response body_refusal"]
  show ?thesis
    by (simp add: refusing_def answering_service)
qed

text \<open>
  C2 as amended. For every response of the service to the suggestion request (no
  transport failure), with the body being the response's text, or the word
  \<open>undefined\<close> when it has none: when the body fails to parse,
  \<open>generatePromptSuggestions\<close> raises what \<open>JSON.parse\<close> raised; when it parses to
  \<open>null\<close>, it raises a \<open>TypeError\<close>; when it parses to anything else without a
  \<open>suggestions\<close> field (an object that lacks it, an array, a string, a number, a
  truth value), it returns the empty list. The effect of \<open>App\<close> keeps the outcome of
  its call in flight, and when a call that raised settles, whenever that is, the effect
  catches the error: the loading flag falls and the rest of the component's state, the
  suggestion list included, stays as it was at that moment.
\<close>

theorem suggestions_parse_outcomes:
  "(truthy (API_KEY w) \<and> fileToBase64 w c = Inr cb \<and> fileToBase64 w p = Inr pb
    \<and> generateContent w (suggestions_request cb pb c p) = Inr r
    \<and> body = (case response_text r of None \<Rightarrow> ascii ''undefined'' | Some t \<Rightarrow> t) \<longrightarrow>
      (JSON_parse w body = Inl e \<longrightarrow> snd (generatePromptSuggestions w c p) = Inl e)
    \<and> (JSON_parse w body = Inr JNull \<longrightarrow>
         (\<exists>m. snd (generatePromptSuggestions w c p) = Inl (TypeError m)))
    \<and> (JSON_parse w body = Inr j \<and> j \<noteq> JNull
       \<and> (\<forall>kvs. j = JObject kvs \<longrightarrow> map_of kvs (ascii ''suggestions'') = None) \<longrightarrow>
         snd (generatePromptSuggestions w c p) = Inr (JArray [])))
   \<and> (characterImage (ui s) = Some ci \<and> productImage (ui s) = Some pi \<longrightarrow>
        fetching (fetchSuggestions w s)
          = fetching s @ [(the_file ci, the_file pi,
                           snd (generatePromptSuggestions w (the_file ci) (the_file pi)))])
   \<and> (i < length (fetching s) \<and> snd (snd (fetching s ! i)) = Inl x \<longrightarrow>
        ui (step w s (SuggestionsSettle i)) = (ui s)\<lparr>isSuggestionsLoading := False\<rparr>)"
proof -
  have "(JSON_parse w body = Inl e \<longrightarrow> snd (generatePromptSuggestions w c p) = Inl e)
    \<and> (JSON_parse w body = Inr JNull \<longrightarrow>
         (\<exists>m. snd (generatePromptSuggestions w c p) = Inl (TypeError m)))
    \<and> (JSON_parse w body = Inr j \<and> j \<noteq> JNull
       \<and> (\<forall>kvs. j = JObject kvs \<longrightarrow> map_of kvs (ascii ''suggestions'') = None) \<longrightarrow>
         snd (generatePromptSuggestions w c p) = Inr (JArray []))"
    if a: "truthy (API_KEY w)" "fileToBase64 w c = Inr cb" "fileToBase64 w p = Inr pb"
      "generateContent w (suggestions_request cb pb c p) = Inr r"
      and body: "body = (case response_text r of None \<Rightarrow> ascii ''undefined'' | Some t \<Rightarrow> t)"
  proof -
    have g: "snd (generatePromptSuggestions w c p) = read_suggestions w r"
      using generatePromptSuggestions_answered [OF a] by simp
    have t: "ToString (response_text r) = body"
      by (simp add: body ToString_def)
    have "snd (generatePromptSuggestions w c p) = Inl e" if "JSON_parse w body = Inl e"
      using that by (simp add: g read_suggestions_def t)
    moreover have "\<exists>m. snd (generatePromptSuggestions w c p) = Inl (TypeError m)"
      if "JSON_parse w body = Inr JNull"
      using that by (simp add: g read_suggestions_def t)
    moreover have "snd (generatePromptSuggestions w c p) = Inr (JArray [])"
      if "JSON_parse w body = Inr j" and "j \<noteq> JNull"
        and "\<forall>kvs. j = JObject kvs \<longrightarrow> map_of kvs (ascii ''suggestions'') = None"
      using that by (cases j) (simp_all add: g read_suggestions_def t)
    ultimately show ?thesis
      by blast
  qed
  moreover have "fetching (fetchSuggestions w s)
      = fetching s @ [(the_file ci, the_file pi,
                       snd (generatePromptSuggestions w (the_file ci) (the_file pi)))]"
    if "characterImage (ui s) = Some ci" and "productImage (ui s) = Some pi"
    using that
    by (cases "generatePromptSuggestions w (the_file ci) (the_file pi)")
      (simp add: fetchSuggestions_def)
  moreover have "ui (step w s (SuggestionsSettle i)) = (ui s)\<lparr>isSuggestionsLoading := False\<rparr>"
    if "i < length (fetching s)" and "snd (snd (fetching s ! i)) = Inl x"
    using that by (simp add: suggestions_settle_def)
  ultimately show ?thesis
    by blast
qed

theorem suggestions_parse_outcomes_witness:
  "snd (generatePromptSuggestions refusing alice hat) = Inl (SyntaxError (ascii ''Unexpected token''))
   \<and> (\<exists>m. snd (generatePromptSuggestions answering_null alice hat) = Inl (TypeError m))
   \<and> snd (generatePromptSuggestions answering_empty alice hat) = Inr (JArray [])
   \<and> snd (generatePromptSuggestions answering_array alice hat) = Inr (JArray [])
   \<and> fetching (fetchSuggestions refusing (ready [] (ascii ''original'')))
       = [(alice, hat, Inl (SyntaxError (ascii ''Unexpected token'')))]
   \<and> dynamicSuggestions
        (ui (run (example_world half_suggesting) initial (overtaken @ [SuggestionsSettle 0])))
       = JArray [JString (ascii ''Put the hat on Alice'')]
   \<and> ui (step (example_world half_suggesting)
            (run (example_world half_suggesting) initial (overtaken @ [SuggestionsSettle 0]))
            (SuggestionsSettle 0))
       = (ui (run (example_world half_suggesting) initial (overtaken @ [SuggestionsSettle 0])))
           \<lparr>isSuggestionsLoading := False\<rparr>"
proof -
  have p1: "JSON_parse refusing body_refusal = Inl (SyntaxError (ascii ''Unexpected token''))"
    by (simp add: refusing_def answering_def example_world_def refusal_not_json)
  have p2: "JSON_parse answering_null (ascii ''null'') = Inr JNull"
    by (simp add: answering_null_def answering_def example_world_def example_parse_def
        body_alice_def body_bob_def ascii_def)
  have p3: "JSON_parse answering_empty (ascii ''{}'') = Inr (JObject [])"
    by (simp add: answering_empty_def answering_def example_world_def example_parse_def
        body_alice_def body_bob_def ascii_def)
  have p4: "JSON_parse answering_array (ascii ''[]'') = Inr (JArray [])"
    by (simp add: answering_array_def answering_def example_world_def example_parse_def
        body_alice_def body_bob_def ascii_def)
  have b: "(case response_text (text_response t) of None \<Rightarrow> ascii ''undefined'' | Some t \<Rightarrow> t) = t"
    for t
    by (simp add: text_response_def)
  note k = answering_key answering_alice answering_hat answering_service
  have s: "run (example_world half_suggesting) initial (overtaken @ [SuggestionsSettle 0]) =
      initial
       \<lparr>ui := (ui initial)\<lparr>characterImage := Some (image_of bob),
                              productImage := Some (image_of hat),
                              dynamicSuggestions := JArray [JString (ascii ''Put the hat on Alice'')]\<rparr>,
        log := [FileRead alice, FileRead hat,
                NetworkCall (suggestions_request (Some (ascii ''QQ=='')) (Some (ascii ''Qw==''))
                               alice hat),
                FileRead bob, FileRead hat,
                NetworkCall (suggestions_request (Some (ascii ''Qg=='')) (Some (ascii ''Qw==''))
                               bob hat)],
        fetching := [(bob, hat, Inl (SyntaxError (ascii ''Unexpected token'')))]\<rparr>"
    unfolding run_append run_overtaken_half
    by (simp add: run_def suggestions_settle_def initial_def)
  have 1: "snd (generatePromptSuggestions refusing alice hat)
             = Inl (SyntaxError (ascii ''Unexpected token''))
           \<and> fetching (fetchSuggestions refusing (ready [] (ascii ''original'')))
             = [(alice, hat, Inl (SyntaxError (ascii ''Unexpected token'')))]"
    using suggestions_parse_outcomes [where w = refusing and c = alice and p = hat
        and cb = "Some (ascii ''QQ=='')" and pb = "Some (ascii ''Qw=='')"
        and r = "text_response body_refusal" and body = body_refusal
        and e = "SyntaxError (ascii ''Unexpected token'')" and j = JNull
        and s = "ready [] (ascii ''original'')" and ci = "image_of alice"
        and pi = "image_of hat" and i = 0 and x = ProgressEvent]
    by (simp add: refusing_def k b p1 [unfolded refusing_def] ready_images)
  have 2: "\<exists>m. snd (generatePromptSuggestions answering_null alice hat) = Inl (TypeError m)"
    using suggestions_parse_outcomes [where w = answering_null and c = alice and p = hat
        and cb = "Some (ascii ''QQ=='')" and pb = "Some (ascii ''Qw=='')"
        and r = "text_response (ascii ''null'')" and body = "ascii ''null''"
        and e = ProgressEvent and j = JNull
        and s = initial and ci = "image_of alice" and pi = "image_of hat" and i = 0
        and x = ProgressEvent]
    by (simp add: answering_null_def k b p2 [unfolded answering_null_def])
  have 3: "snd (generatePromptSuggestions answering_empty alice hat) = Inr (JArray [])"
    using suggestions_parse_outcomes [where w = answering_empty and c = alice and p = hat
        and cb = "Some (ascii ''QQ=='')" and pb = "Some (ascii ''Qw=='')"
        and r = "text_response (ascii ''{}'')" and body = "ascii ''{}''"
        and e = ProgressEvent and j = "JObject []"
        and s = initial and ci = "image_of alice" and pi = "image_of hat" and i = 0
        and x = ProgressEvent]
    by (simp add: answering_empty_def k b p3 [unfolded answering_empty_def])
  have 4: "snd (generatePromptSuggestions answering_array alice hat) = Inr (JArray [])"
    using suggestions_parse_outcomes [where w = answering_array and c = alice and p = hat
        and cb = "Some (ascii ''QQ=='')" and pb = "Some (ascii ''Qw=='')"
        and r = "text_response (ascii ''[]'')" and body = "ascii ''[]''"
        and e = ProgressEvent and j = "JArray []"
        and s = initial and ci = "image_of alice" and pi = "image_of hat" and i = 0
        and x = ProgressEvent]
    by (simp add: answering_array_def k b p4 [unfolded answering_array_def])
  have 5: "ui (step (example_world half_suggesting)
            (run (example_world half_suggesting) initial (overtaken @ [SuggestionsSettle 0]))
            (SuggestionsSettle 0))
       = (ui (run (example_world half_suggesting) initial (overtaken @ [SuggestionsSettle 0])))
           \<lparr>isSuggestionsLoading := False\<rparr>"
    using suggestions_parse_outcomes [where w = "example_world half_suggesting"
        and c = alice and p = hat
        and cb = "Some (ascii ''QQ=='')" and pb = "Some (ascii ''Qw=='')"
        and r = "text_response body_alice" and body = body_alice
        and e = ProgressEvent and j = JNull
        and s = "run (example_world half_suggesting) initial (overtaken @ [SuggestionsSettle 0])"
        and ci = "image_of bob" and pi = "image_of hat" and i = 0
        and x = "SyntaxError (ascii ''Unexpected token'')"]
    unfolding s
    by (simp add: b initial_def)
  have 6: "dynamicSuggestions
        (ui (run (example_world half_suggesting) initial (overtaken @ [SuggestionsSettle 0])))
       = JArray [JString (ascii ''Put the hat on Alice'')]"
    by (simp add: s)
  from 1 2 3 4 5 6 show ?thesis
    by simp
qed




text \<open>
  C4. When the service answers the fusion request with a response whose block reason is
  set (to a reason name, which is never the empty string) or whose first candidate has
  the finish reason \<open>SAFETY\<close>, \<open>generateFusedImage\<close> fails with the error
  \<open>SAFETY_POLICY_VIOLATION\<close>, whatever parts the response carries.
\<close>

theorem safety_block_wins:
  assumes "truthy (API_KEY w)"
    and "fileToBase64 w c = Inr cb"
    and "fileToBase64 w p = Inr pb"
    and "generateContent w (fusion_request cb pb c p u) = Inr r"
    and "(\<exists>fb b. promptFeedback r = Some fb \<and> blockReason fb = Some b \<and> b \<noteq> [])
         \<or> (\<exists>k ks. candidates r = Some (k # ks) \<and> finishReason k = Some (ascii ''SAFETY''))"
  shows "snd (generateFusedImage w c p u) = Inl safety_violation"
proof -
  from assms(5) have "blocked r"
    by (auto intro: blocked_by_reason blocked_by_finish)
  then have "read_fusion r = Inl safety_violation"
    by (simp add: read_fusion_def)
  with generateFusedImage_answered [OF assms(1-4)] show ?thesis
    by simp
qed

theorem safety_block_wins_witness:
  "snd (generateFusedImage (answering blocked_with_image) alice hat []) = Inl safety_violation
   \<and> snd (generateFusedImage (answering safety_with_image) alice hat []) = Inl safety_violation
   \<and> inlineData png_part \<noteq> None
   \<and> response_parts blocked_with_image = [png_part]
   \<and> response_parts safety_with_image = [png_part]"
proof -
  have a: "(\<exists>fb b. promptFeedback blocked_with_image = Some fb \<and> blockReason fb = Some b \<and> b \<noteq> [])
         \<or> (\<exists>k ks. candidates blocked_with_image = Some (k # ks)
               \<and> finishReason k = Some (ascii ''SAFETY''))"
    by (simp add: blocked_with_image_def response_of_def ascii_def)
  have b: "(\<exists>fb b. promptFeedback safety_with_image = Some fb \<and> blockReason fb = Some b \<and> b \<noteq> [])
         \<or> (\<exists>k ks. candidates safety_with_image = Some (k # ks)
               \<and> finishReason k = Some (ascii ''SAFETY''))"
    by (simp add: safety_with_image_def response_of_def)
  have c: "response_parts blocked_with_image = [png_part]"
    by (simp add: blocked_with_image_def response_parts_def response_of_def first_candidate_def
        at_index_def)
  show ?thesis
    using safety_block_wins [OF answering_key answering_alice answering_hat answering_service a]
      safety_block_wins [OF answering_key answering_alice answering_hat answering_service b]
      c
    by (simp add: png_part_def safety_with_image_def response_parts_response_of)
qed

text \<open>
  C5. When the service answers the fusion request with a response that has no block
  reason (none, or the empty string) and a first candidate whose finish reason is not
  \<open>SAFETY\<close> and whose content has a list of parts with one that holds inline data,
  \<open>generateFusedImage\<close> returns the data URL of the first such part of that list:
  \<open>data:\<close>, that part's media type, \<open>;base64,\<close> and its data (a field that is
  absent prints as \<open>undefined\<close>). The parts after it and the other candidates, with
  or without inline data, have no influence.
\<close>

theorem first_image_part_wins:
  assumes "truthy (API_KEY w)"
    and "fileToBase64 w c = Inr cb"
    and "fileToBase64 w p = Inr pb"
    and "generateContent w (fusion_request cb pb c p u) = Inr r"
    and "promptFeedback r = None
         \<or> (\<exists>fb. promptFeedback r = Some fb
               \<and> (blockReason fb = None \<or> blockReason fb = Some []))"
    and "candidates r = Some (k # ks)"
    and "finishReason k \<noteq> Some (ascii ''SAFETY'')"
    and "content k = Some ct"
    and "parts ct = Some (pre @ x # post)"
    and "\<forall>q\<in>set pre. inlineData q = None"
    and "inlineData x = Some d"
  shows "snd (generateFusedImage w c p u) =
           Inr (ascii ''data:''
                @ (case mimeType d of None \<Rightarrow> ascii ''undefined'' | Some m \<Rightarrow> m)
                @ ascii '';base64,''
                @ (case data d of None \<Rightarrow> ascii ''undefined'' | Some b \<Rightarrow> b))"
proof -
  have "\<not> blocked r"
    using assms(5-7) by (auto simp: blocked_def truthy_def first_candidate_def at_index_def)
  moreover have "response_parts r = pre @ x # post"
    using assms(6,8,9) by (simp add: response_parts_def first_candidate_def at_index_def)
  then have "scan_parts (response_parts r) = Inr (data_url d)"
    using assms(10,11) by (simp add: scan_parts_first)
  ultimately have "read_fusion r = Inr (data_url d)"
    by (simp add: read_fusion_def)
  with generateFusedImage_answered [OF assms(1-4)] show ?thesis
    by (simp add: data_url_def ToString_def)
qed

theorem first_image_part_wins_witness:
  "snd (generateFusedImage (answering two_candidates) alice hat []) =
     Inr (ascii ''data:image/png;base64,iVBORw0KGgo='')"
proof -
  have f: "promptFeedback two_candidates = None
         \<or> (\<exists>fb. promptFeedback two_candidates = Some fb
               \<and> (blockReason fb = None \<or> blockReason fb = Some []))"
    by (simp add: two_candidates_def)
  have k: "candidates two_candidates =
      Some (\<lparr>finishReason = Some (ascii ''STOP''),
              content = Some \<lparr>parts = Some [text_part (ascii ''Here is the image.''), png_part,
                                               jpeg_part, text_part (ascii ''Done.'')]\<rparr>\<rparr>
            # [\<lparr>finishReason = Some (ascii ''STOP''),
                content = Some \<lparr>parts = Some [jpeg_part]\<rparr>\<rparr>])"
    by (simp add: two_candidates_def)
  have fr: "finishReason \<lparr>finishReason = Some (ascii ''STOP''),
              content = Some \<lparr>parts = Some [text_part (ascii ''Here is the image.''), png_part,
                                               jpeg_part, text_part (ascii ''Done.'')]\<rparr>\<rparr>
            \<noteq> Some (ascii ''SAFETY'')"
    by (simp add: stop_not_safety)
  have ct: "content \<lparr>finishReason = Some (ascii ''STOP''),
              content = Some \<lparr>parts = Some [text_part (ascii ''Here is the image.''), png_part,
                                               jpeg_part, text_part (ascii ''Done.'')]\<rparr>\<rparr>
            = Some \<lparr>parts = Some [text_part (ascii ''Here is the image.''), png_part,
                                   jpeg_part, text_part (ascii ''Done.'')]\<rparr>"
    by simp
  have ps: "parts \<lparr>parts = Some [text_part (ascii ''Here is the image.''), png_part,
                                  jpeg_part, text_part (ascii ''Done.'')]\<rparr>
            = Some ([text_part (ascii ''Here is the image.'')] @ png_part
                      # [jpeg_part, text_part (ascii ''Done.'')])"
    by simp
  have pre: "\<forall>q\<in>set [text_part (ascii ''Here is the image.'')]. inlineData q = None"
    by (simp add: text_part_def)
  have d: "inlineData png_part =
             Some \<lparr>data = Some (ascii ''iVBORw0KGgo=''), mimeType = Some (ascii ''image/png'')\<rparr>"
    by (simp add: png_part_def)
  show ?thesis
    using first_image_part_wins [OF answering_key answering_alice answering_hat answering_service
        f k fr ct ps pre d]
    by (simp add: ascii_def)
qed

text \<open>
  C6. When the service answers the fusion request with a response that is not blocked
  and none of whose parts holds inline data, \<open>generateFusedImage\<close> fails with the error
  "No image was generated. The model may have refused the prompt.".
\<close>

theorem no_image_part:
  assumes "truthy (API_KEY w)"
    and "fileToBase64 w c = Inr cb"
    and "fileToBase64 w p = Inr pb"
    and "generateContent w (fusion_request cb pb c p u) = Inr r"
    and "\<not> blocked r"
    and "\<forall>q\<in>set (response_parts r). inlineData q = None"
  shows "snd (generateFusedImage w c p u) = Inl no_image"
proof -
  have "read_fusion r = Inl no_image"
    using assms(5,6) by (simp add: read_fusion_def scan_parts_none)
  with generateFusedImage_answered [OF assms(1-4)] show ?thesis
    by simp
qed

theorem no_image_part_witness:
  "snd (generateFusedImage (answering text_only) alice hat []) = Inl no_image"
proof -
  have nb: "\<not> blocked text_only"
    by (simp add: text_only_def not_blocked_response_of stop_not_safety)
  have ps: "\<forall>q\<in>set (response_parts text_only). inlineData q = None"
    by (simp add: text_only_def response_parts_response_of text_part_def)
  show ?thesis
    by (rule no_image_part [OF answering_key answering_alice answering_hat answering_service nb ps])
qed

text \<open>
  C7. With no credential in the environment (or an empty one), both
  \<open>generatePromptSuggestions\<close> and \<open>generateFusedImage\<close> fail with the error
  "API_KEY environment variable not set" and have done nothing that can be observed:
  no file was read and no request was sent.
\<close>

theorem missing_credential:
  assumes "\<not> truthy (API_KEY w)"
  shows "generatePromptSuggestions w c p = ([], Inl missing_key)
       \<and> generateFusedImage w c p u = ([], Inl missing_key)"
  using assms by (simp add: generatePromptSuggestions_def generateFusedImage_def)

theorem missing_credential_witness:
  "generatePromptSuggestions (no_credential two_images) alice hat = ([], Inl missing_key)
   \<and> generateFusedImage (no_credential two_images) alice hat [] = ([], Inl missing_key)"
proof -
  have "\<not> truthy (API_KEY (no_credential two_images))"
    by (simp add: no_credential_def truthy_def)
  then show ?thesis
    by (rule missing_credential)
qed

text \<open>
  C8. In every state, \<open>handleGenerate\<close> starts a generation call or causes an effect
  only if both images are there; with either image missing it only sets the error
  "Missing Images" and leaves everything else, the log and the calls in flight
  included, as it was.
\<close>

theorem generate_needs_both_images:
  "(generating (handleGenerate w s) \<noteq> generating s \<or> log (handleGenerate w s) \<noteq> log s
      \<longrightarrow> characterImage (ui s) \<noteq> None \<and> productImage (ui s) \<noteq> None)
   \<and> (characterImage (ui s) = None \<or> productImage (ui s) = None
      \<longrightarrow> handleGenerate w s = s\<lparr>ui := (ui s)\<lparr>error := Some missing_images\<rparr>\<rparr>)"
  by (auto simp: handleGenerate_def split: option.splits prod.splits)

theorem generate_needs_both_images_witness:
  "handleGenerate (answering two_images) initial
     = initial\<lparr>ui := (ui initial)\<lparr>error := Some missing_images\<rparr>\<rparr>
   \<and> generating (handleGenerate (answering two_images) (ready [] (ascii ''original'')))
       = [Inr (ascii ''data:image/png;base64,iVBORw0KGgo='')]
   \<and> characterImage (ui (ready [] (ascii ''original''))) \<noteq> None
   \<and> productImage (ui (ready [] (ascii ''original''))) \<noteq> None"
proof -
  have a: "characterImage (ui initial) = None \<or> productImage (ui initial) = None"
    by (simp add: initial_def)
  have b: "generating (handleGenerate (answering two_images) (ready [] (ascii ''original'')))
             = [Inr (ascii ''data:image/png;base64,iVBORw0KGgo='')]"
    by (simp add: handleGenerate_ready)
  have c: "generating (ready [] (ascii ''original'')) = []"
    by (simp add: ready_def initial_def)
  show ?thesis
    using generate_needs_both_images [of "answering two_images" initial]
      generate_needs_both_images [of "answering two_images" "ready [] (ascii ''original'')"]
      a b c
    by simp
qed

text \<open>
  C9. The instruction put into the prompt is the user's text as it is when trimming
  leaves something of it, and the fixed default otherwise. The request that
  \<open>generateFusedImage\<close> sends carries the two images and one text: the fixed opening,
  the line \<open>**Goal:**\<close> followed by that instruction unchanged, and the fixed
  description of the images and the six rules, after which nothing follows. Called with
  the empty text and the aspect ratio "original", it sends that text with the default
  as the instruction.
\<close>

theorem effective_instruction:
  assumes "truthy (API_KEY w)"
    and "fileToBase64 w c = Inr cb"
    and "fileToBase64 w p = Inr pb"
  shows "userInstruction u =
           (if trim u = [] then
              ascii ''Make the character from the first image interact with or use the product from the second image.''
            else u)
     \<and> fst (generateFusedImage w c p u) =
          [FileRead c, FileRead p,
           NetworkCall
             \<lparr>model = ascii ''gemini-2.5-flash-image'',
             contents =
               [\<lparr>part_text = None, inlineData = Some \<lparr>data = cb, mimeType = Some (file_type c)\<rparr>\<rparr>,
                \<lparr>part_text = None, inlineData = Some \<lparr>data = pb, mimeType = Some (file_type p)\<rparr>\<rparr>,
                \<lparr>part_text = Some
                   (ascii ''You are an expert image editor. Your task is to realistically merge a product into a character's image.'' @ [0x0A] @
                    [0x0A] @
                    ascii ''**Goal:** '' @ (if trim u = [] then
                      ascii ''Make the character from the first image interact with or use the product from the second image.''
                    else u) @ [0x0A] @
                    [0x0A] @
                    ascii ''**Image 1 (Character Image):** This is the main subject and the base for the final image.'' @ [0x0A] @
                    ascii ''**Image 2 (Product Image):** This contains the product to be integrated with the character.'' @ [0x0A] @
                    [0x0A] @
                    ascii ''**Strict Rules:**'' @ [0x0A] @
                    ascii ''1.  **Combine:** Generate a new image where the character from Image 1 is interacting with or wearing the product from Image 2, as described in the goal.'' @ [0x0A] @
                    ascii ''2.  **Full Product Integration:** The *entire* product from Image 2 must be realistically integrated. **Do not just copy a logo, graphic, or texture from the product.** For example, if the goal is for the character to wear a t-shirt from Image 2, the final image must show the character wearing the *complete t-shirt* (including its color, shape, and fabric), not just the graphic from the t-shirt pasted onto their original clothing.'' @ [0x0A] @
                    ascii ''3.  **High-Fidelity Detail Transfer:** All visual details from the product in Image 2 must be transferred. This includes all graphics, logos, text, patterns, and textures. Ensure the final representation is a faithful and complete reproduction of the product's design.'' @ [0x0A] @
                    ascii ''4.  **Preserve Style:** The final image's artistic style, lighting, and overall aesthetic MUST exactly match the Character Image (Image 1).'' @ [0x0A] @
                    ascii ''5.  **Preserve Dimensions:** The final image MUST have the same dimensions and aspect ratio as the Character Image (Image 1).'' @ [0x0A] @
                    ascii ''6.  **No Additions:** Do not add any new elements, characters, or complex backgrounds. Only modify what is necessary to combine the character and product naturally.'' @ [0x0A]),
                 inlineData = None\<rparr>],
             config = ModalitiesConfig [IMAGE, TEXT]\<rparr>]
     \<and> fst (call_generateFusedImage w c p [] (ascii ''original'')) =
          [FileRead c, FileRead p,
           NetworkCall
             \<lparr>model = ascii ''gemini-2.5-flash-image'',
             contents =
               [\<lparr>part_text = None, inlineData = Some \<lparr>data = cb, mimeType = Some (file_type c)\<rparr>\<rparr>,
                \<lparr>part_text = None, inlineData = Some \<lparr>data = pb, mimeType = Some (file_type p)\<rparr>\<rparr>,
                \<lparr>part_text = Some
                   (ascii ''You are an expert image editor. Your task is to realistically merge a product into a character's image.'' @ [0x0A] @
                    [0x0A] @
                    ascii ''**Goal:** '' @ ascii ''Make the character from the first image interact with or use the product from the second image.'' @ [0x0A] @
                    [0x0A] @
                    ascii ''**Image 1 (Character Image):** This is the main subject and the base for the final image.'' @ [0x0A] @
                    ascii ''**Image 2 (Product Image):** This contains the product to be integrated with the character.'' @ [0x0A] @
                    [0x0A] @
                    ascii ''**Strict Rules:**'' @ [0x0A] @
                    ascii ''1.  **Combine:** Generate a new image where the character from Image 1 is interacting with or wearing the product from Image 2, as described in the goal.'' @ [0x0A] @
                    ascii ''2.  **Full Product Integration:** The *entire* product from Image 2 must be realistically integrated. **Do not just copy a logo, graphic, or texture from the product.** For example, if the goal is for the character to wear a t-shirt from Image 2, the final image must show the character wearing the *complete t-shirt* (including its color, shape, and fabric), not just the graphic from the t-shirt pasted onto their original clothing.'' @ [0x0A] @
                    ascii ''3.  **High-Fidelity Detail Transfer:** All visual details from the product in Image 2 must be transferred. This includes all graphics, logos, text, patterns, and textures. Ensure the final representation is a faithful and complete reproduction of the product's design.'' @ [0x0A] @
                    ascii ''4.  **Preserve Style:** The final image's artistic style, lighting, and overall aesthetic MUST exactly match the Character Image (Image 1).'' @ [0x0A] @
                    ascii ''5.  **Preserve Dimensions:** The final image MUST have the same dimensions and aspect ratio as the Character Image (Image 1).'' @ [0x0A] @
                    ascii ''6.  **No Additions:** Do not add any new elements, characters, or complex backgrounds. Only modify what is necessary to combine the character and product naturally.'' @ [0x0A]),
                 inlineData = None\<rparr>],
             config = ModalitiesConfig [IMAGE, TEXT]\<rparr>]"
proof -
  have u: "userInstruction v = (if trim v = [] then defaultInstruction else v)" for v
    by (cases v) (simp_all add: userInstruction_def trim_Nil)
  show ?thesis
    using generateFusedImage_trace [OF assms]
    by (simp add: u fusion_request_def call_generateFusedImage_def trim_Nil image_part_def
        text_part_def fusion_prompt_def nl_def defaultInstruction_def)
qed

theorem effective_instruction_witness:
  "userInstruction [] =
     ascii ''Make the character from the first image interact with or use the product from the second image.''
   \<and> userInstruction (ascii ''  '') =
     ascii ''Make the character from the first image interact with or use the product from the second image.''
   \<and> userInstruction (ascii '' wear it '') = ascii '' wear it ''
   \<and> fst (generateFusedImage (answering two_images) alice hat (ascii '' wear it '')) =
        [FileRead alice, FileRead hat,
         NetworkCall
           \<lparr>model = ascii ''gemini-2.5-flash-image'',
           contents =
             [\<lparr>part_text = None, inlineData = Some \<lparr>data = Some (ascii ''QQ==''), mimeType = Some (file_type alice)\<rparr>\<rparr>,
              \<lparr>part_text = None, inlineData = Some \<lparr>data = Some (ascii ''Qw==''), mimeType = Some (file_type hat)\<rparr>\<rparr>,
              \<lparr>part_text = Some
                 (ascii ''You are an expert image editor. Your task is to realistically merge a product into a character's image.'' @ [0x0A] @
                  [0x0A] @
                  ascii ''**Goal:** '' @ ascii '' wear it '' @ [0x0A] @
                  [0x0A] @
                  ascii ''**Image 1 (Character Image):** This is the main subject and the base for the final image.'' @ [0x0A] @
                  ascii ''**Image 2 (Product Image):** This contains the product to be integrated with the character.'' @ [0x0A] @
                  [0x0A] @
                  ascii ''**Strict Rules:**'' @ [0x0A] @
                  ascii ''1.  **Combine:** Generate a new image where the character from Image 1 is interacting with or wearing the product from Image 2, as described in the goal.'' @ [0x0A] @
                  ascii ''2.  **Full Product Integration:** The *entire* product from Image 2 must be realistically integrated. **Do not just copy a logo, graphic, or texture from the product.** For example, if the goal is for the character to wear a t-shirt from Image 2, the final image must show the character wearing the *complete t-shirt* (including its color, shape, and fabric), not just the graphic from the t-shirt pasted onto their original clothing.'' @ [0x0A] @
                  ascii ''3.  **High-Fidelity Detail Transfer:** All visual details from the product in Image 2 must be transferred. This includes all graphics, logos, text, patterns, and textures. Ensure the final representation is a faithful and complete reproduction of the product's design.'' @ [0x0A] @
                  ascii ''4.  **Preserve Style:** The final image's artistic style, lighting, and overall aesthetic MUST exactly match the Character Image (Image 1).'' @ [0x0A] @
                  ascii ''5.  **Preserve Dimensions:** The final image MUST have the same dimensions and aspect ratio as the Character Image (Image 1).'' @ [0x0A] @
                  ascii ''6.  **No Additions:** Do not add any new elements, characters, or complex backgrounds. Only modify what is necessary to combine the character and product naturally.'' @ [0x0A]),
               inlineData = None\<rparr>],
           config = ModalitiesConfig [IMAGE, TEXT]\<rparr>]
   \<and> fst (call_generateFusedImage (answering two_images) alice hat [] (ascii ''original'')) =
        [FileRead alice, FileRead hat,
         NetworkCall
           \<lparr>model = ascii ''gemini-2.5-flash-image'',
           contents =
             [\<lparr>part_text = None, inlineData = Some \<lparr>data = Some (ascii ''QQ==''), mimeType = Some (file_type alice)\<rparr>\<rparr>,
              \<lparr>part_text = None, inlineData = Some \<lparr>data = Some (ascii ''Qw==''), mimeType = Some (file_type hat)\<rparr>\<rparr>,
              \<lparr>part_text = Some
                 (ascii ''You are an expert image editor. Your task is to realistically merge a product into a character's image.'' @ [0x0A] @
                  [0x0A] @
                  ascii ''**Goal:** '' @ ascii ''Make the character from the first image interact with or use the product from the second image.'' @ [0x0A] @
                  [0x0A] @
                  ascii ''**Image 1 (Character Image):** This is the main subject and the base for the final image.'' @ [0x0A] @
                  ascii ''**Image 2 (Product Image):** This contains the product to be integrated with the character.'' @ [0x0A] @
                  [0x0A] @
                  ascii ''**Strict Rules:**'' @ [0x0A] @
                  ascii ''1.  **Combine:** Generate a new image where the character from Image 1 is interacting with or wearing the product from Image 2, as described in the goal.'' @ [0x0A] @
                  ascii ''2.  **Full Product Integration:** The *entire* product from Image 2 must be realistically integrated. **Do not just copy a logo, graphic, or texture from the product.** For example, if the goal is for the character to wear a t-shirt from Image 2, the final image must show the character wearing the *complete t-shirt* (including its color, shape, and fabric), not just the graphic from the t-shirt pasted onto their original clothing.'' @ [0x0A] @
                  ascii ''3.  **High-Fidelity Detail Transfer:** All visual details from the product in Image 2 must be transferred. This includes all graphics, logos, text, patterns, and textures. Ensure the final representation is a faithful and complete reproduction of the product's design.'' @ [0x0A] @
                  ascii ''4.  **Preserve Style:** The final image's artistic style, lighting, and overall aesthetic MUST exactly match the Character Image (Image 1).'' @ [0x0A] @
                  ascii ''5.  **Preserve Dimensions:** The final image MUST have the same dimensions and aspect ratio as the Character Image (Image 1).'' @ [0x0A] @
                  ascii ''6.  **No Additions:** Do not add any new elements, characters, or complex backgrounds. Only modify what is necessary to combine the character and product naturally.'' @ [0x0A]),
               inlineData = None\<rparr>],
           config = ModalitiesConfig [IMAGE, TEXT]\<rparr>]"
proof -
  have a: "trim (ascii ''  '') = []"
    by (simp add: trim_def ascii_def isWhiteSpace_def)
  have b: "trim (ascii '' wear it '') \<noteq> []"
    by (simp add: trim_def ascii_def isWhiteSpace_def)
  show ?thesis
    using
      effective_instruction [OF answering_key [of two_images] answering_alice answering_hat,
        where u = "[]"]
      effective_instruction [OF answering_key [of two_images] answering_alice answering_hat,
        where u = "ascii ''  ''"]
      effective_instruction [OF answering_key [of two_images] answering_alice answering_hat,
        where u = "ascii '' wear it ''"]
    by (simp add: a b trim_Nil)
qed

text \<open>
  C10. When the service answers the fusion request with a response that is not blocked
  and that has no candidate list, an empty one, a first candidate without content or a
  content without a list of parts, \<open>generateFusedImage\<close> fails with the error
  "No image was generated. The model may have refused the prompt.": the scan runs
  over no part at all.
\<close>

theorem missing_structure_is_no_image:
  assumes "truthy (API_KEY w)"
    and "fileToBase64 w c = Inr cb"
    and "fileToBase64 w p = Inr pb"
    and "generateContent w (fusion_request cb pb c p u) = Inr r"
    and "\<not> blocked r"
    and "candidates r = None \<or> candidates r = Some []
         \<or> (\<exists>k ks. candidates r = Some (k # ks)
               \<and> (content k = None \<or> (\<exists>ct. content k = Some ct \<and> parts ct = None)))"
  shows "snd (generateFusedImage w c p u) = Inl no_image"
proof -
  have "response_parts r = []"
    using assms(6) by (rule response_parts_missing)
  then have "read_fusion r = Inl no_image"
    using assms(5) by (simp add: read_fusion_def)
  with generateFusedImage_answered [OF assms(1-4)] show ?thesis
    by simp
qed

theorem missing_structure_is_no_image_witness:
  "snd (generateFusedImage (answering no_candidates) alice hat []) = Inl no_image
   \<and> snd (generateFusedImage (answering empty_candidates) alice hat []) = Inl no_image
   \<and> snd (generateFusedImage (answering no_content) alice hat []) = Inl no_image
   \<and> snd (generateFusedImage (answering no_parts) alice hat []) = Inl no_image"
proof -
  have 1: "\<not> blocked no_candidates"
    by (simp add: blocked_def no_candidates_def first_candidate_def)
  have 2: "\<not> blocked empty_candidates"
    by (simp add: blocked_def empty_candidates_def first_candidate_def at_index_def)
  have 3: "\<not> blocked no_content"
    by (simp add: blocked_def no_content_def first_candidate_def at_index_def stop_not_safety)
  have 4: "\<not> blocked no_parts"
    by (simp add: blocked_def no_parts_def first_candidate_def at_index_def stop_not_safety)
  show ?thesis
    using
      missing_structure_is_no_image [OF answering_key answering_alice answering_hat
        answering_service 1]
      missing_structure_is_no_image [OF answering_key answering_alice answering_hat
        answering_service 2]
      missing_structure_is_no_image [OF answering_key answering_alice answering_hat
        answering_service 3]
      missing_structure_is_no_image [OF answering_key answering_alice answering_hat
        answering_service 4]
    by (simp add: no_candidates_def empty_candidates_def no_content_def no_parts_def)
qed

end
